theory Spec2Isabelle
  imports Complex_Main "HOL-Library.Word"
begin

unbundle bit_operations_syntax

section \<open>Streaming video over UDP: the receiver, the multi-port receiver and the sender\<close>

text \<open>
  The repository holds three programs: a single-port receiver (blocking \<open>recvfrom\<close>), a
  receiver that listens on three ports in three threads (\<open>select\<close> with a timeout and a
  fallback picture) and a sender that streams three cameras. Functions of the single-port
  receiver keep their names; functions of the multi-port receiver that differ carry the
  suffix \<open>_rxN\<close>, those of the sender the suffix \<open>_tx\<close>. Member names lose their
  trailing underscore (\<open>frame_image_\<close> is \<open>frame_image\<close>), which Isabelle reserves.

  OpenCV, Winsock and the Win32 clock are outside the repository. They enter the model as
  a record of library functions (\<open>externals\<close>), as the values the system calls return
  (\<open>recv_result\<close>, \<open>rx_env\<close>, \<open>startup_env\<close>) and as a trace of the calls the program
  makes on the world (\<open>io_event\<close>).
\<close>

subsection \<open>Bytes, images, clock\<close>

type_synonym byte = "8 word"

text \<open>\<open>cv::Mat\<close>: the header fields the programs depend on and the pixel buffer.\<close>

record Mat =
  mat_rows :: nat
  mat_cols :: nat
  mat_data :: "byte list"

definition Mat_default :: Mat where
  \<comment> \<open>\<open>cv::Mat()\<close>: no rows, no columns, no data.\<close>
  "Mat_default = \<lparr>mat_rows = 0, mat_cols = 0, mat_data = []\<rparr>"

definition Mat_empty :: "Mat \<Rightarrow> bool" where
  \<comment> \<open>\<open>cv::Mat::empty()\<close>: no data or no elements.\<close>
  "Mat_empty m \<longleftrightarrow> mat_data m = [] \<or> mat_rows m * mat_cols m = 0"

record SYSTEMTIME =
  wYear :: "16 word"
  wMonth :: "16 word"
  wDayOfWeek :: "16 word"
  wDay :: "16 word"
  wHour :: "16 word"
  wMinute :: "16 word"
  wSecond :: "16 word"
  wMilliseconds :: "16 word"

record timeval =
  tv_sec :: int
  tv_usec :: int

record sockaddr_in =
  sin_family :: int
  sin_port :: "16 word"
  sin_addr :: "32 word"

text \<open>The library functions the programs call. Each is an opaque collaborator.\<close>

record externals =
  cv_imdecode :: "byte list \<Rightarrow> Mat"
    \<comment> \<open>\<open>cv::imdecode(buf, cv::IMREAD_COLOR)\<close>\<close>
  cv_imencode :: "string \<Rightarrow> Mat \<Rightarrow> int list \<Rightarrow> byte list"
    \<comment> \<open>\<open>cv::imencode(ext, img, buf, params)\<close>, the buffer it fills\<close>
  cv_imread :: "string \<Rightarrow> Mat"
  cv_putText :: "Mat \<Rightarrow> string \<Rightarrow> int \<times> int \<Rightarrow> int \<times> int \<times> int \<Rightarrow> Mat"
    \<comment> \<open>image, text, origin, colour; font \<open>FONT_HERSHEY_COMPLEX_SMALL\<close>, scale 1.6 and
        thickness 2 are the same at every call\<close>
  cv_resize :: "Mat \<Rightarrow> real \<Rightarrow> real \<Rightarrow> Mat"
    \<comment> \<open>\<open>cv::resize(src, dst, Size(0, 0), fx, fy)\<close>\<close>
  SystemTimeToFileTime :: "SYSTEMTIME \<Rightarrow> 64 word"
  FileTimeToSystemTime :: "64 word \<Rightarrow> SYSTEMTIME"
  inet_addr :: "string \<Rightarrow> 32 word"

text \<open>
  What the program does to the world, in call order. \<open>Stderr\<close> and \<open>Stdout\<close> hold one
  line each (the text before \<open>std::endl\<close>).
\<close>

datatype io_event =
    Stderr string
  | Stdout string
  | Printf string
  | NamedWindow string
  | ImShow string Mat
  | WaitKey int
  | Select int timeval
  | SendTo int "byte list" sockaddr_in
  | CloseSocket int
  | WSACleanup

subsection \<open>Constants\<close>

definition kMaxPacketBufferSize :: int where
  "kMaxPacketBufferSize = 65535"

definition kWindowName :: string where
  "kWindowName = ''Streaming Video''"

definition kDisplayDelayTimeMS :: int where
  "kDisplayDelayTimeMS = 15"

definition kJPEGExtension :: string where
  "kJPEGExtension = ''.jpg''"

definition kJPEGQuality_tx :: int where
  \<comment> \<open>The sender's value; the receivers declare 90 and never encode.\<close>
  "kJPEGQuality_tx = 60"

definition IMWRITE_JPEG_QUALITY :: int where
  "IMWRITE_JPEG_QUALITY = 1"

definition INVALID_SOCKET :: int where
  \<comment> \<open>\<open>(SOCKET)(~0)\<close> stored in the \<open>int\<close> handle.\<close>
  "INVALID_SOCKET = - 1"

definition SOCKET_ERROR :: int where
  "SOCKET_ERROR = - 1"

definition AF_INET :: int where
  "AF_INET = 2"

definition INADDR_ANY :: "32 word" where
  "INADDR_ANY = 0"

subsection \<open>Text helpers\<close>

definition digit_char :: "nat \<Rightarrow> char" where
  \<comment> \<open>The character of a decimal digit; every caller hands it a number below ten.\<close>
  "digit_char d = ''0123456789'' ! d"

fun to_string :: "nat \<Rightarrow> string" where
  \<comment> \<open>\<open>std::to_string\<close> on a value that is not negative: decimal digits.\<close>
  "to_string n =
     (if n < 10 then [digit_char n]
      else to_string (n div 10) @ [digit_char (n mod 10)])"

declare to_string.simps [simp del]

definition int_to_string :: "int \<Rightarrow> string" where
  \<comment> \<open>\<open>std::cout << i\<close> for an \<open>int\<close>.\<close>
  "int_to_string i = (if i < 0 then ''-'' @ to_string (nat (- i)) else to_string (nat i))"

definition timestamp_text :: "SYSTEMTIME \<Rightarrow> string" where
  \<comment> \<open>\<open>hour + ":" + min + ":" + sec + "." + ms\<close>\<close>
  "timestamp_text sys =
     to_string (unat (wHour sys)) @ '':'' @ to_string (unat (wMinute sys)) @ '':'' @
     to_string (unat (wSecond sys)) @ ''.'' @ to_string (unat (wMilliseconds sys))"

subsection \<open>VideoFrame\<close>

record VideoFrame =
  frame_image :: Mat

definition VideoFrame_default :: VideoFrame where
  \<comment> \<open>\<open>VideoFrame() {}\<close>: "just makes an empty image".\<close>
  "VideoFrame_default = \<lparr>frame_image = Mat_default\<rparr>"

definition VideoFrame_Mat :: "Mat \<Rightarrow> VideoFrame" where
  "VideoFrame_Mat im = \<lparr>frame_image = im\<rparr>"

definition VideoFrame_bytes :: "externals \<Rightarrow> byte list \<Rightarrow> VideoFrame" where
  \<comment> \<open>\<open>frame_image = cv::imdecode(frame_bytes, cv::IMREAD_COLOR)\<close>\<close>
  "VideoFrame_bytes ex frame_bytes = \<lparr>frame_image = cv_imdecode ex frame_bytes\<rparr>"

text \<open>
  \<open>Display\<close> draws the time stamp into the frame's own pixel buffer and shows it. The
  callers display a copy of the stored frame; a copy of a \<open>cv::Mat\<close> shares the pixel
  buffer, so the function also returns the frame as it is after the call.
\<close>

definition Display :: "externals \<Rightarrow> SYSTEMTIME \<Rightarrow> VideoFrame \<Rightarrow> io_event list
    \<Rightarrow> VideoFrame \<times> io_event list" where
  "Display ex sys f tr =
     (if Mat_empty (frame_image f) then (f, tr)
      else
        let text = timestamp_text sys;
            img = cv_putText ex (frame_image f) text (16, 40) (0, 0, 255)
        in (f\<lparr>frame_image := img\<rparr>,
            tr @ [NamedWindow kWindowName, ImShow kWindowName img,
                  WaitKey kDisplayDelayTimeMS]))"

definition Display_rxN :: "externals \<Rightarrow> string \<Rightarrow> SYSTEMTIME \<Rightarrow> VideoFrame \<Rightarrow> io_event list
    \<Rightarrow> VideoFrame \<times> io_event list" where
  "Display_rxN ex kWindowName_arg sys f tr =
     (if Mat_empty (frame_image f) then (f, tr)
      else
        let text = timestamp_text sys;
            img = cv_putText ex (frame_image f) text (16, 40) (0, 0, 255)
        in (f\<lparr>frame_image := img\<rparr>,
            tr @ [NamedWindow kWindowName_arg, ImShow kWindowName_arg img,
                  WaitKey kDisplayDelayTimeMS]))"

definition Display_tx :: "VideoFrame \<Rightarrow> io_event list \<Rightarrow> io_event list" where
  \<comment> \<open>The sender's \<open>Display\<close> draws no time stamp.\<close>
  "Display_tx f tr =
     (if Mat_empty (frame_image f) then tr
      else tr @ [NamedWindow kWindowName, ImShow kWindowName (frame_image f),
                 WaitKey kDisplayDelayTimeMS])"

definition GetJPEG_tx :: "externals \<Rightarrow> VideoFrame \<Rightarrow> byte list" where
  "GetJPEG_tx ex f =
     (let compression_params = [IMWRITE_JPEG_QUALITY, kJPEGQuality_tx]
      in cv_imencode ex kJPEGExtension (frame_image f) compression_params)"

subsection \<open>BasicProtocolData\<close>

record BasicProtocolData =
  video_frame :: VideoFrame

definition BasicProtocolData_default :: BasicProtocolData where
  "BasicProtocolData_default = \<lparr>video_frame = VideoFrame_default\<rparr>"

definition SetImage :: "BasicProtocolData \<Rightarrow> VideoFrame \<Rightarrow> BasicProtocolData" where
  "SetImage pd im = pd\<lparr>video_frame := im\<rparr>"

definition GetImage :: "BasicProtocolData \<Rightarrow> VideoFrame" where
  "GetImage pd = video_frame pd"

definition PackageData_tx :: "externals \<Rightarrow> BasicProtocolData \<Rightarrow> byte list" where
  "PackageData_tx ex pd = GetJPEG_tx ex (video_frame pd)"

definition UnpackData :: "externals \<Rightarrow> BasicProtocolData \<Rightarrow> byte list \<Rightarrow> BasicProtocolData" where
  \<comment> \<open>Single-port receiver and sender: no test of the bytes.\<close>
  "UnpackData ex pd raw_bytes = pd\<lparr>video_frame := VideoFrame_bytes ex raw_bytes\<rparr>"

definition UnpackData_rxN :: "externals \<Rightarrow> BasicProtocolData \<Rightarrow> byte list \<Rightarrow> BasicProtocolData" where
  "UnpackData_rxN ex pd raw_bytes =
     (if raw_bytes \<noteq> [] then pd\<lparr>video_frame := VideoFrame_bytes ex raw_bytes\<rparr>
      else pd\<lparr>video_frame := VideoFrame_default\<rparr>)"

subsection \<open>ReceiverSocket\<close>

record ReceiverSocket =
  buffer :: "byte list"
  port :: int
  socket_handle :: int

definition ReceiverSocket :: "int \<Rightarrow> int \<Rightarrow> ReceiverSocket" where
  \<comment> \<open>\<open>port_(port_number)\<close>, \<open>socket_handle_ = socket(AF_INET, SOCK_DGRAM, 0)\<close>; the second
      argument is what \<open>socket\<close> returned. \<open>buffer_\<close> is \<open>char[kMaxPacketBufferSize]\<close>; C++ leaves
      its contents indeterminate, here they are zero.\<close>
  "ReceiverSocket port_number socket_ret =
     \<lparr>buffer = replicate (nat kMaxPacketBufferSize) 0, port = port_number,
      socket_handle = socket_ret\<rparr>"

text \<open>
  What one \<open>recvfrom\<close> call finds: a datagram with its payload, or a failure of the call
  (no datagram on a non-blocking socket, a closed socket, a network error).
\<close>

datatype recv_result = Received "byte list" | RecvFailed

definition recvfrom :: "recv_result \<Rightarrow> byte list \<Rightarrow> nat \<Rightarrow> int \<times> byte list" where
  \<comment> \<open>Winsock's \<open>recvfrom(s, buf, len, 0, from, fromlen)\<close>: the byte count and the buffer
      after the call. A datagram longer than \<open>len\<close> fills the buffer and the call reports
      \<open>SOCKET_ERROR\<close> (\<open>WSAEMSGSIZE\<close>).\<close>
  "recvfrom r buf len =
     (case r of
        Received d \<Rightarrow>
          if length d \<le> len then (int (length d), d @ drop (length d) buf)
          else (SOCKET_ERROR, take len d @ drop len buf)
      | RecvFailed \<Rightarrow> (SOCKET_ERROR, buf))"

definition GetPacket :: "ReceiverSocket \<Rightarrow> recv_result \<Rightarrow> byte list \<times> ReceiverSocket" where
  \<comment> \<open>Single-port receiver, and the same text in the sender's file.
      \<open>data.insert(data.end(), &buffer_[0], &buffer_[num_bytes])\<close> copies the first
      \<open>num_bytes\<close> bytes of the buffer.\<close>
  "GetPacket s r =
     (let (num_bytes, buf) = recvfrom r (buffer s) (nat kMaxPacketBufferSize);
          data = (if num_bytes > 0 then take (nat num_bytes) buf else [])
      in (data, s\<lparr>buffer := buf\<rparr>))"

text \<open>
  What one iteration of the multi-port receiver finds: the value \<open>select\<close> returned,
  whether the socket is still in the descriptor set after it (\<open>FD_ISSET\<close>), what
  \<open>recvfrom\<close> finds, and the local time read by \<open>Display\<close>. \<open>select\<close> running out of time
  returns 0 and leaves the set empty.
\<close>

record rx_env =
  select_ret :: int
  fd_isset :: bool
  recv :: recv_result
  local_time :: SYSTEMTIME

definition select_timeout :: timeval where
  \<comment> \<open>\<open>timeout.tv_sec = 1; timeout.tv_usec = 0;\<close>\<close>
  "select_timeout = \<lparr>tv_sec = 1, tv_usec = 0\<rparr>"

definition fallback_picture :: string where
  "fallback_picture = ''our_team.jpg''"

definition GetPacket_rxN :: "externals \<Rightarrow> ReceiverSocket \<Rightarrow> string \<Rightarrow> rx_env \<Rightarrow> io_event list
    \<Rightarrow> byte list \<times> ReceiverSocket \<times> io_event list" where
  \<comment> \<open>\<open>SelectRcv\<close> is assigned and never read.\<close>
  "GetPacket_rxN ex s kWindowName_arg env tr =
     (let tr1 = tr @ [Select (socket_handle s + 1) select_timeout]
      in if fd_isset env then
           let (num_bytes, buf) = recvfrom (recv env) (buffer s) (nat kMaxPacketBufferSize);
               data = (if num_bytes > 0 then take (nat num_bytes) buf else [])
           in (data, s\<lparr>buffer := buf\<rparr>, tr1)
         else
           let picture = cv_imread ex fallback_picture
           in ([], s, tr1 @ [NamedWindow kWindowName_arg, ImShow kWindowName_arg picture,
                             WaitKey kDisplayDelayTimeMS]))"

text \<open>What the calls made while a receiver session starts return.\<close>

record startup_env =
  WSAStartup_ret :: int
  socket_ret :: int
  ioctlsocket_ret :: int
  bind_ret :: int

text \<open>
  A function that can call \<open>exit\<close> returns \<open>Inl code\<close> when it does: the whole process
  ends with that code. \<open>Inr\<close> holds the value of a normal return.
\<close>

definition BindSocketToListen_rxN :: "ReceiverSocket \<Rightarrow> startup_env \<Rightarrow> io_event list
    \<Rightarrow> (int + bool) \<times> io_event list" where
  "BindSocketToListen_rxN s env tr =
     (if socket_handle s = INVALID_SOCKET then
        (Inr False, tr @ [Stderr ''Binding failed. Socket was not initialized.''])
      else if ioctlsocket_ret env = SOCKET_ERROR then
        (Inl (- 1), tr @ [Printf ''ioctlsocket failed!'', CloseSocket (socket_handle s),
                          WSACleanup])
      else if bind_ret env < 0 then
        (Inr False, tr @ [Stderr ''Binding failed. Could not bind the socket.''])
      else (Inr True, tr))"

subsection \<open>The receiver session: \<open>receive\<close>\<close>

type_synonym rx_state = "ReceiverSocket \<times> BasicProtocolData"

definition receive_start :: "startup_env \<Rightarrow> int \<Rightarrow> io_event list
    \<Rightarrow> (int + rx_state) \<times> io_event list" where
  \<comment> \<open>\<open>receive\<close> up to the loop: \<open>Inl code\<close> is \<open>exit(code)\<close>, \<open>Inr\<close> the state the loop
      starts in.\<close>
  "receive_start env port_arg tr =
     (if WSAStartup_ret env \<noteq> 0 then (Inl 0, tr)
      else
        let socket = ReceiverSocket port_arg (socket_ret env)
        in case BindSocketToListen_rxN socket env tr of
             (Inl code, tr1) \<Rightarrow> (Inl code, tr1)
           | (Inr False, tr1) \<Rightarrow> (Inl (- 1), tr1 @ [Stderr ''Could not bind socket.''])
           | (Inr True, tr1) \<Rightarrow>
               (Inr (socket, BasicProtocolData_default),
                tr1 @ [Stdout (''Listening on port '' @ int_to_string port_arg @ ''.'')]))"

definition receive_iter :: "externals \<Rightarrow> string \<Rightarrow> rx_env \<Rightarrow> rx_state \<Rightarrow> io_event list
    \<Rightarrow> rx_state \<times> io_event list" where
  \<comment> \<open>One pass through the body of \<open>while (true)\<close>:
      \<open>protocol_data.UnpackData(socket.GetPacket(kWindowName_id));
       protocol_data.GetImage().Display(kWindowName_id);\<close>
      The displayed copy shares its pixels with the stored frame.\<close>
  "receive_iter ex kWindowName_id env st tr =
     (let (socket, protocol_data) = st;
          (data, socket1, tr1) = GetPacket_rxN ex socket kWindowName_id env tr;
          protocol_data1 = UnpackData_rxN ex protocol_data data;
          (shown, tr2) = Display_rxN ex kWindowName_id (local_time env)
                           (GetImage protocol_data1) tr1
      in ((socket1, protocol_data1\<lparr>video_frame := shown\<rparr>), tr2))"

fun receive_loop :: "externals \<Rightarrow> string \<Rightarrow> rx_env list \<Rightarrow> rx_state \<Rightarrow> io_event list
    \<Rightarrow> rx_state \<times> io_event list" where
  \<comment> \<open>The loop never ends by itself; the list holds what the passes made so far met.\<close>
  "receive_loop ex kWindowName_id [] st tr = (st, tr)"
| "receive_loop ex kWindowName_id (env # envs) st tr =
     (case receive_iter ex kWindowName_id env st tr of
        (st1, tr1) \<Rightarrow> receive_loop ex kWindowName_id envs st1 tr1)"

subsection \<open>The single-port receiver's loop\<close>

definition main_iter :: "externals \<Rightarrow> recv_result \<Rightarrow> SYSTEMTIME \<Rightarrow> rx_state \<Rightarrow> io_event list
    \<Rightarrow> rx_state \<times> io_event list" where
  \<comment> \<open>\<open>protocol_data.UnpackData(socket.GetPacket()); protocol_data.GetImage().Display();\<close>\<close>
  "main_iter ex r sys st tr =
     (let (socket, protocol_data) = st;
          (data, socket1) = GetPacket socket r;
          protocol_data1 = UnpackData ex protocol_data data;
          (shown, tr1) = Display ex sys (GetImage protocol_data1) tr
      in ((socket1, protocol_data1\<lparr>video_frame := shown\<rparr>), tr1))"

subsection \<open>The process of the multi-port receiver\<close>

text \<open>
  \<open>main\<close> starts three detached threads, each running \<open>receive\<close>. A thread is either
  before its start-up or in its loop; \<open>exit\<close> in any thread ends the process. A schedule
  names, step by step, the thread that runs and what it meets: its start-up as one step,
  one pass of its loop as one step. \<open>main\<close> itself waits in \<open>system("pause")\<close>; its
  return is not a step of a schedule.
\<close>

datatype thread = NotStarted int string | Running string ReceiverSocket BasicProtocolData

datatype thread_input = Startup startup_env | Cycle rx_env

record process =
  exit_code :: "int option"
  threads :: "thread list"
  trace :: "io_event list"

fun thread_step :: "externals \<Rightarrow> thread_input \<Rightarrow> thread \<Rightarrow> io_event list
    \<Rightarrow> (int + thread) \<times> io_event list" where
  "thread_step ex (Startup env) (NotStarted port_arg name) tr =
     (case receive_start env port_arg tr of
        (Inl code, tr1) \<Rightarrow> (Inl code, tr1)
      | (Inr (socket, protocol_data), tr1) \<Rightarrow> (Inr (Running name socket protocol_data), tr1))"
| "thread_step ex (Cycle env) (Running name socket protocol_data) tr =
     (case receive_iter ex name env (socket, protocol_data) tr of
        ((socket1, protocol_data1), tr1) \<Rightarrow> (Inr (Running name socket1 protocol_data1), tr1))"
| "thread_step ex (Cycle env) (NotStarted port_arg name) tr = (Inr (NotStarted port_arg name), tr)"
| "thread_step ex (Startup env) (Running name socket protocol_data) tr =
     (Inr (Running name socket protocol_data), tr)"

definition proc_step :: "externals \<Rightarrow> nat \<times> thread_input \<Rightarrow> process \<Rightarrow> process" where
  \<comment> \<open>After \<open>exit\<close> no thread runs.\<close>
  "proc_step ex a p =
     (let (i, inp) = a
      in if exit_code p \<noteq> None \<or> i \<ge> length (threads p) then p
         else case thread_step ex inp (threads p ! i) (trace p) of
                (Inl code, tr) \<Rightarrow> p\<lparr>exit_code := Some code, trace := tr\<rparr>
              | (Inr th, tr) \<Rightarrow> p\<lparr>threads := (threads p)[i := th], trace := tr\<rparr>)"

fun proc_run :: "externals \<Rightarrow> (nat \<times> thread_input) list \<Rightarrow> process \<Rightarrow> process" where
  "proc_run ex [] p = p"
| "proc_run ex (a # as) p = proc_run ex as (proc_step ex a p)"

definition main_rxN :: process where
  \<comment> \<open>\<open>kWindowName_id1 + " " + std::to_string(0)\<close> on port 4000, and so on.\<close>
  "main_rxN =
     \<lparr>exit_code = None,
      threads = [NotStarted 4000 (''Streaming Video'' @ '' '' @ to_string 0),
                 NotStarted 5000 (''Streaming Video'' @ '' '' @ to_string 1),
                 NotStarted 6000 (''Streaming Video'' @ '' '' @ to_string 2)],
      trace = []\<rparr>"

subsection \<open>VideoCapture\<close>

text \<open>
  The camera behind \<open>cv::VideoCapture\<close>: whether it was opened and the frames it will
  deliver. Reading from a camera with no frame left gives the empty image.
\<close>

record camera =
  cam_opened :: bool
  cam_frames :: "Mat list"

definition read_frame :: "camera \<Rightarrow> Mat \<times> camera" where
  \<comment> \<open>\<open>capture_ >> image\<close>\<close>
  "read_frame c =
     (case cam_frames c of
        [] \<Rightarrow> (Mat_default, c)
      | m # ms \<Rightarrow> (m, c\<lparr>cam_frames := ms\<rparr>))"

record VideoCapture =
  capture :: camera
  scale :: real
  show_video :: bool

definition VideoCapture :: "bool \<Rightarrow> real \<Rightarrow> camera \<Rightarrow> VideoCapture" where
  \<comment> \<open>The third argument is the camera that \<open>cv::VideoCapture(camera)\<close> found.\<close>
  "VideoCapture show_video_arg scale_arg cam =
     \<lparr>capture = cam, scale = scale_arg, show_video = show_video_arg\<rparr>"

definition camera_unavailable :: string where
  "camera_unavailable = ''Could not get frame. Camera not available.''"

definition GetFrameFromCamera :: "externals \<Rightarrow> SYSTEMTIME \<Rightarrow> VideoCapture \<Rightarrow> io_event list
    \<Rightarrow> VideoFrame \<times> VideoCapture \<times> io_event list" where
  \<comment> \<open>Single-port receiver's file.\<close>
  "GetFrameFromCamera ex sys vc tr =
     (if \<not> cam_opened (capture vc) then
        (VideoFrame_default, vc, tr @ [Stderr camera_unavailable])
      else
        let (image0, cam1) = read_frame (capture vc);
            image1 = (if scale vc < 1.0 then cv_resize ex image0 (scale vc) (scale vc)
                      else image0);
            video_frame0 = VideoFrame_Mat image1;
            (shown, tr1) = (if show_video vc then Display ex sys video_frame0 tr
                            else (video_frame0, tr))
        in (shown, vc\<lparr>capture := cam1\<rparr>, tr1))"

definition time_offset :: "64 word" where
  \<comment> \<open>\<open>((__int64)offset_sec * 1000i64 + (__int64)offset_ms) * 10000i64\<close> with
      \<open>offset_sec = -2\<close>, \<open>offset_ms = 10\<close>, added to the 64-bit file time.\<close>
  "time_offset = word_of_int ((- 2 * 1000 + 10) * 10000)"

definition GetFrameFromCamera_tx :: "externals \<Rightarrow> SYSTEMTIME \<Rightarrow> VideoCapture \<Rightarrow> io_event list
    \<Rightarrow> VideoFrame \<times> VideoCapture \<times> io_event list" where
  "GetFrameFromCamera_tx ex sys vc tr =
     (if \<not> cam_opened (capture vc) then
        (VideoFrame_default, vc, tr @ [Stderr camera_unavailable])
      else
        let (image0, cam1) = read_frame (capture vc);
            image1 = (if scale vc < 1.0 then cv_resize ex image0 (scale vc) (scale vc)
                      else image0);
            ft = SystemTimeToFileTime ex sys + time_offset;
            sys1 = FileTimeToSystemTime ex ft;
            text = timestamp_text sys1;
            image2 = cv_putText ex image1 text (16, 100) (0, 255, 0);
            video_frame0 = VideoFrame_Mat image2;
            tr1 = (if show_video vc then Display_tx video_frame0 tr else tr)
        in (video_frame0, vc\<lparr>capture := cam1\<rparr>, tr1))"

subsection \<open>SenderSocket and the sender session\<close>

record SenderSocket =
  tx_socket_handle :: int
  receiver_addr :: sockaddr_in

definition htons :: "int \<Rightarrow> 16 word" where
  \<comment> \<open>Winsock's \<open>htons\<close> on the little-endian hosts the program runs on: the port,
      cut to 16 bits, with its two bytes swapped. The result is the number the host reads
      in \<open>sin_port\<close> (28695 for port 6000).\<close>
  "htons p = (let h = (word_of_int p :: 16 word) in push_bit 8 h OR drop_bit 8 h)"

definition SenderSocket :: "externals \<Rightarrow> string \<Rightarrow> int \<Rightarrow> int \<Rightarrow> SenderSocket" where
  \<comment> \<open>The last argument is what \<open>socket(AF_INET, SOCK_DGRAM, 0)\<close> returned.\<close>
  "SenderSocket ex receiver_ip receiver_port socket_result =
     \<lparr>tx_socket_handle = socket_result,
      receiver_addr = \<lparr>sin_family = AF_INET, sin_port = htons receiver_port,
                       sin_addr = inet_addr ex receiver_ip\<rparr>\<rparr>"

definition SendPacket :: "SenderSocket \<Rightarrow> byte list \<Rightarrow> io_event list \<Rightarrow> io_event list" where
  \<comment> \<open>\<open>sendto(socket_handle_, data.data(), data.size(), 0, &receiver_addr_, ...)\<close>; the
      value \<open>sendto\<close> returns is dropped.\<close>
  "SendPacket s data tr = tr @ [SendTo (tx_socket_handle s) data (receiver_addr s)]"

type_synonym tx_state = "VideoCapture \<times> BasicProtocolData"

definition send_iter :: "externals \<Rightarrow> SenderSocket \<Rightarrow> SYSTEMTIME \<Rightarrow> tx_state \<Rightarrow> io_event list
    \<Rightarrow> tx_state \<times> io_event list" where
  \<comment> \<open>\<open>protocol_data.SetImage(video_capture.GetFrameFromCamera());
       socket.SendPacket(protocol_data.PackageData());\<close>\<close>
  "send_iter ex socket sys st tr =
     (let (video_capture, protocol_data) = st;
          (frame, video_capture1, tr1) = GetFrameFromCamera_tx ex sys video_capture tr;
          protocol_data1 = SetImage protocol_data frame;
          tr2 = SendPacket socket (PackageData_tx ex protocol_data1) tr1
      in ((video_capture1, protocol_data1), tr2))"

fun send_loop :: "externals \<Rightarrow> SenderSocket \<Rightarrow> SYSTEMTIME list \<Rightarrow> tx_state \<Rightarrow> io_event list
    \<Rightarrow> tx_state \<times> io_event list" where
  \<comment> \<open>The list holds the local time read in each pass made so far.\<close>
  "send_loop ex socket [] st tr = (st, tr)"
| "send_loop ex socket (sys # syss) st tr =
     (case send_iter ex socket sys st tr of
        (st1, tr1) \<Rightarrow> send_loop ex socket syss st1 tr1)"

record tx_startup_env =
  tx_WSAStartup_ret :: int
  tx_socket_ret :: int
  tx_camera :: camera

definition send_start :: "externals \<Rightarrow> tx_startup_env \<Rightarrow> string \<Rightarrow> int \<Rightarrow> io_event list
    \<Rightarrow> (int + SenderSocket \<times> tx_state) \<times> io_event list" where
  \<comment> \<open>\<open>send1\<close>, \<open>send2\<close>, \<open>send3\<close> up to the loop; they differ in address, port and camera.\<close>
  "send_start ex env ip_address port_arg tr =
     (if tx_WSAStartup_ret env \<noteq> 0 then (Inl 0, tr)
      else
        let socket = SenderSocket ex ip_address port_arg (tx_socket_ret env);
            tr1 = tr @ [Stdout (''Sending to '' @ ip_address @ '' on port '' @
                                int_to_string port_arg @ ''.'')];
            video_capture = VideoCapture False 0.6 (tx_camera env)
        in (Inr (socket, (video_capture, BasicProtocolData_default)), tr1))"

definition send1 :: "externals \<Rightarrow> tx_startup_env \<Rightarrow> io_event list
    \<Rightarrow> (int + SenderSocket \<times> tx_state) \<times> io_event list" where
  "send1 ex env tr = send_start ex env ''192.168.43.168'' 6000 tr"

definition send2 :: "externals \<Rightarrow> tx_startup_env \<Rightarrow> io_event list
    \<Rightarrow> (int + SenderSocket \<times> tx_state) \<times> io_event list" where
  "send2 ex env tr = send_start ex env ''192.168.43.168'' 5000 tr"

definition send3 :: "externals \<Rightarrow> tx_startup_env \<Rightarrow> io_event list
    \<Rightarrow> (int + SenderSocket \<times> tx_state) \<times> io_event list" where
  "send3 ex env tr = send_start ex env ''192.168.1.3'' 4000 tr"

subsection \<open>Reading a trace\<close>

definition window_image :: "string \<Rightarrow> io_event list \<Rightarrow> Mat option" where
  \<comment> \<open>The image a window shows after the trace: that of the last \<open>imshow\<close> on it.\<close>
  "window_image w tr =
     foldl (\<lambda>cur e. case e of ImShow w1 m \<Rightarrow> if w1 = w then Some m else cur | _ \<Rightarrow> cur)
       None tr"

fun wait_bound_ms :: "io_event \<Rightarrow> int" where
  \<comment> \<open>The longest time a call may wait, in milliseconds: the time-out handed to
      \<open>select\<close>, the delay handed to \<open>cv::waitKey\<close>. No other recorded call waits.\<close>
  "wait_bound_ms (Select n tv) = tv_sec tv * 1000 + tv_usec tv div 1000"
| "wait_bound_ms (WaitKey d) = d"
| "wait_bound_ms e = 0"

definition sent_payloads :: "io_event list \<Rightarrow> byte list list" where
  "sent_payloads tr = concat (map (\<lambda>e. case e of SendTo h d a \<Rightarrow> [d] | _ \<Rightarrow> []) tr)"

subsection \<open>A small instance of the collaborators\<close>

text \<open>
  A codec for evaluating the programs on concrete inputs: an encoded image is the row
  count, the column count and the pixels; bytes of any other shape decode to the empty
  image. Drawing text and resizing leave the pixels alone.
\<close>

definition toy_decode :: "byte list \<Rightarrow> Mat" where
  "toy_decode bs =
     (case bs of
        r # c # px \<Rightarrow>
          if px \<noteq> [] \<and> unat r * unat c = length px
          then \<lparr>mat_rows = unat r, mat_cols = unat c, mat_data = px\<rparr>
          else Mat_default
      | _ \<Rightarrow> Mat_default)"

definition toy_encode :: "string \<Rightarrow> Mat \<Rightarrow> int list \<Rightarrow> byte list" where
  "toy_encode ext m params =
     (if Mat_empty m then []
      else word_of_nat (mat_rows m) # word_of_nat (mat_cols m) # mat_data m)"

definition zero_time :: SYSTEMTIME where
  "zero_time = \<lparr>wYear = 0, wMonth = 0, wDayOfWeek = 0, wDay = 0, wHour = 0, wMinute = 0,
                wSecond = 0, wMilliseconds = 0\<rparr>"

definition toy_externals :: externals where
  "toy_externals =
     \<lparr>cv_imdecode = toy_decode,
      cv_imencode = toy_encode,
      cv_imread = (\<lambda>path. \<lparr>mat_rows = 1, mat_cols = 1, mat_data = [127]\<rparr>),
      cv_putText = (\<lambda>m text org colour. m),
      cv_resize = (\<lambda>m fx fy. m),
      SystemTimeToFileTime = (\<lambda>sys. 0),
      FileTimeToSystemTime = (\<lambda>ft. zero_time),
      inet_addr = (\<lambda>ip. 0)\<rparr>"

subsection \<open>Sample inputs\<close>

text \<open>Concrete values of what the system calls return, for evaluating the programs.\<close>

definition sample_startup_ok :: startup_env where
  "sample_startup_ok = \<lparr>WSAStartup_ret = 0, socket_ret = 3, ioctlsocket_ret = 0, bind_ret = 0\<rparr>"

definition sample_bind_fails :: startup_env where
  "sample_bind_fails = \<lparr>WSAStartup_ret = 0, socket_ret = 3, ioctlsocket_ret = 0, bind_ret = - 1\<rparr>"

definition sample_recv_failed :: rx_env where
  "sample_recv_failed =
     \<lparr>select_ret = 1, fd_isset = True, recv = RecvFailed, local_time = zero_time\<rparr>"

definition sample_timeout :: rx_env where
  "sample_timeout =
     \<lparr>select_ret = 0, fd_isset = False, recv = RecvFailed, local_time = zero_time\<rparr>"

definition sample_frame :: rx_env where
  "sample_frame =
     \<lparr>select_ret = 1, fd_isset = True, recv = Received [1, 1, 7], local_time = zero_time\<rparr>"

definition sample_no_camera :: VideoCapture where
  "sample_no_camera = VideoCapture False 0.6 \<lparr>cam_opened = False, cam_frames = []\<rparr>"

definition sample_running :: process where
  \<comment> \<open>The multi-port receiver with its first session in the loop.\<close>
  "sample_running =
     \<lparr>exit_code = None,
      threads = [Running ''Streaming Video 0'' (ReceiverSocket 4000 3) BasicProtocolData_default,
                 NotStarted 5000 ''Streaming Video 1'', NotStarted 6000 ''Streaming Video 2''],
      trace = [Stdout ''Listening on port 4000.'']\<rparr>"

definition bind_failure_schedule :: "(nat \<times> thread_input) list" where
  \<comment> \<open>The second session starts and shows a frame; then the first session fails to bind;
      then the second session is scheduled again.\<close>
  "bind_failure_schedule =
     [(1, Startup sample_startup_ok), (1, Cycle sample_frame),
      (0, Startup sample_bind_fails), (1, Cycle sample_frame)]"

definition recv_failure_schedule :: "(nat \<times> thread_input) list" where
  \<comment> \<open>The first session starts, meets a failing \<open>recvfrom\<close>, then receives a frame.\<close>
  "recv_failure_schedule =
     [(0, Startup sample_startup_ok), (0, Cycle sample_recv_failed), (0, Cycle sample_frame)]"

section \<open>Properties\<close>

subsection \<open>Helper facts\<close>

lemma Mat_empty_default: "Mat_empty Mat_default"
  by (simp add: Mat_empty_def Mat_default_def)

lemma VideoFrame_default_empty: "Mat_empty (frame_image VideoFrame_default)"
  by (simp add: VideoFrame_default_def Mat_empty_default)

lemma recvfrom_le: "fst (recvfrom r buf len) \<le> int len"
  by (simp add: recvfrom_def SOCKET_ERROR_def split: recv_result.split)

lemma GetPacket_data:
  "fst (GetPacket s r) =
     (if 0 < fst (recvfrom r (buffer s) (nat kMaxPacketBufferSize))
      then take (nat (fst (recvfrom r (buffer s) (nat kMaxPacketBufferSize))))
             (snd (recvfrom r (buffer s) (nat kMaxPacketBufferSize)))
      else [])"
  by (simp add: GetPacket_def Let_def split: prod.split)

lemma htons_6000: "htons 6000 = 28695"
  by (simp add: htons_def)

lemma GetPacket_payload:
  "\<lbrakk>d \<noteq> []; length d \<le> 65535\<rbrakk> \<Longrightarrow> fst (GetPacket s (Received d)) = d"
  by (simp add: GetPacket_def recvfrom_def kMaxPacketBufferSize_def)

lemma main_iter_no_data:
  "fst (GetPacket s r) = [] \<Longrightarrow>
     main_iter ex r sys (s, pd) tr =
       ((snd (GetPacket s r),
         pd\<lparr>video_frame := fst (Display ex sys (VideoFrame_bytes ex []) tr)\<rparr>),
        snd (Display ex sys (VideoFrame_bytes ex []) tr))"
  by (cases "GetPacket s r")
     (simp add: main_iter_def UnpackData_def GetImage_def case_prod_beta)

lemma send1_sample_start:
  "send1 toy_externals
     \<lparr>tx_WSAStartup_ret = 0, tx_socket_ret = 3,
      tx_camera = \<lparr>cam_opened = False, cam_frames = []\<rparr>\<rparr> [] =
     (Inr (SenderSocket toy_externals ''192.168.43.168'' 6000 3,
           (sample_no_camera, BasicProtocolData_default)),
      [Stdout ''Sending to 192.168.43.168 on port 6000.''])"
  by (simp add: send1_def send_start_def sample_no_camera_def int_to_string_def
      to_string.simps digit_char_def)

lemma GetPacket_rxN_data:
  "fst (GetPacket_rxN ex s name env tr) =
     (if fd_isset env \<and> 0 < fst (recvfrom (recv env) (buffer s) (nat kMaxPacketBufferSize))
      then take (nat (fst (recvfrom (recv env) (buffer s) (nat kMaxPacketBufferSize))))
             (snd (recvfrom (recv env) (buffer s) (nat kMaxPacketBufferSize)))
      else [])"
  by (simp add: GetPacket_rxN_def Let_def split: prod.split)

lemma receive_iter_no_data:
  "fst (GetPacket_rxN ex s name env tr) = [] \<Longrightarrow>
     receive_iter ex name env (s, pd) tr =
       ((fst (snd (GetPacket_rxN ex s name env tr)), pd\<lparr>video_frame := VideoFrame_default\<rparr>),
        snd (snd (GetPacket_rxN ex s name env tr)))"
  by (cases "GetPacket_rxN ex s name env tr")
     (simp add: receive_iter_def UnpackData_rxN_def GetImage_def Display_rxN_def
        VideoFrame_default_empty)

lemma GetPacket_rxN_timeout:
  "\<not> fd_isset env \<Longrightarrow>
     GetPacket_rxN ex s name env tr =
       ([], s, tr @ [Select (socket_handle s + 1) select_timeout, NamedWindow name,
                     ImShow name (cv_imread ex fallback_picture), WaitKey kDisplayDelayTimeMS])"
  by (simp add: GetPacket_rxN_def Let_def)

lemma receive_iter_timeout:
  "\<not> fd_isset env \<Longrightarrow>
     receive_iter ex name env (s, pd) tr =
       ((s, pd\<lparr>video_frame := VideoFrame_default\<rparr>),
        tr @ [Select (socket_handle s + 1) select_timeout, NamedWindow name,
              ImShow name (cv_imread ex fallback_picture), WaitKey kDisplayDelayTimeMS])"
  by (simp add: receive_iter_no_data GetPacket_rxN_timeout)

lemma receive_loop_timeouts:
  "\<forall>e\<in>set envs. \<not> fd_isset e \<Longrightarrow>
     snd (receive_loop ex name envs (s, pd) tr) =
       tr @ concat (replicate (length envs)
              [Select (socket_handle s + 1) select_timeout, NamedWindow name,
               ImShow name (cv_imread ex fallback_picture), WaitKey kDisplayDelayTimeMS])"
proof (induction envs arbitrary: pd tr)
  case Nil
  then show ?case by simp
next
  case (Cons e envs)
  then have "\<not> fd_isset e" and rest: "\<forall>e\<in>set envs. \<not> fd_isset e"
    by simp_all
  then show ?case
    using Cons.IH [OF rest] by (simp add: receive_iter_timeout)
qed

lemma sent_payloads_append: "sent_payloads (xs @ ys) = sent_payloads xs @ sent_payloads ys"
  by (simp add: sent_payloads_def)

lemma sent_payloads_Display_tx: "sent_payloads (Display_tx f tr) = sent_payloads tr"
  by (simp add: Display_tx_def sent_payloads_def)

lemma sent_payloads_GetFrameFromCamera_tx:
  "sent_payloads (snd (snd (GetFrameFromCamera_tx ex sys vc tr))) = sent_payloads tr"
  by (simp add: GetFrameFromCamera_tx_def Let_def sent_payloads_Display_tx
      sent_payloads_append split: prod.split)
     (simp add: sent_payloads_def)

lemma send_iter_unfold:
  "send_iter ex socket sys (vc, pd) tr =
     ((fst (snd (GetFrameFromCamera_tx ex sys vc tr)),
       SetImage pd (fst (GetFrameFromCamera_tx ex sys vc tr))),
      SendPacket socket (PackageData_tx ex (SetImage pd (fst (GetFrameFromCamera_tx ex sys vc tr))))
        (snd (snd (GetFrameFromCamera_tx ex sys vc tr))))"
  by (simp add: send_iter_def Let_def split: prod.split)

lemma GetFrameFromCamera_tx_closed:
  "\<not> cam_opened (capture vc) \<Longrightarrow>
     GetFrameFromCamera_tx ex sys vc tr =
       (VideoFrame_default, vc, tr @ [Stderr camera_unavailable])"
  by (simp add: GetFrameFromCamera_tx_def)

lemma send_iter_closed:
  "\<not> cam_opened (capture vc) \<Longrightarrow>
     send_iter ex socket sys (vc, pd) tr =
       ((vc, pd\<lparr>video_frame := VideoFrame_default\<rparr>),
        tr @ [Stderr camera_unavailable,
              SendTo (tx_socket_handle socket) (GetJPEG_tx ex VideoFrame_default)
                (receiver_addr socket)])"
  by (simp add: send_iter_unfold GetFrameFromCamera_tx_closed SetImage_def SendPacket_def
      PackageData_tx_def)

lemma send_loop_closed:
  "\<not> cam_opened (capture vc) \<Longrightarrow>
     send_loop ex socket syss (vc, pd) tr =
       ((vc, if syss = [] then pd else pd\<lparr>video_frame := VideoFrame_default\<rparr>),
        tr @ concat (replicate (length syss)
               [Stderr camera_unavailable,
                SendTo (tx_socket_handle socket) (GetJPEG_tx ex VideoFrame_default)
                  (receiver_addr socket)]))"
proof (induction syss arbitrary: pd tr)
  case Nil
  then show ?case by simp
next
  case (Cons sys syss)
  show ?case
    using Cons.IH [OF Cons.prems] by (simp add: send_iter_closed [OF Cons.prems])
qed

lemma proc_run_exited: "exit_code p \<noteq> None \<Longrightarrow> proc_run ex sched p = p"
  by (induction sched) (simp_all add: proc_step_def split: prod.split)

lemma receive_start_bind_fails:
  "\<lbrakk>WSAStartup_ret env = 0;
    socket_ret env = INVALID_SOCKET \<or> (ioctlsocket_ret env \<noteq> SOCKET_ERROR \<and> bind_ret env < 0)\<rbrakk> \<Longrightarrow>
     receive_start env port_arg tr =
       (Inl (- 1),
        tr @ [Stderr (if socket_ret env = INVALID_SOCKET
                      then ''Binding failed. Socket was not initialized.''
                      else ''Binding failed. Could not bind the socket.''),
              Stderr ''Could not bind socket.''])"
  by (auto simp: receive_start_def BindSocketToListen_rxN_def ReceiverSocket_def)

lemma sample_simps:
  "fd_isset sample_frame" "recv sample_frame = Received [1, 1, 7]"
  "local_time sample_frame = zero_time"
  "\<not> fd_isset sample_timeout" "fd_isset sample_recv_failed" "recv sample_recv_failed = RecvFailed"
  "local_time sample_timeout = zero_time" "local_time sample_recv_failed = zero_time"
  by (simp_all add: sample_frame_def sample_timeout_def sample_recv_failed_def)

lemma toy_simps:
  "cv_imdecode toy_externals [1, 1, 7] = \<lparr>mat_rows = 1, mat_cols = 1, mat_data = [7]\<rparr>"
  "cv_putText toy_externals m text org colour = m"
  "cv_imread toy_externals path = \<lparr>mat_rows = 1, mat_cols = 1, mat_data = [127]\<rparr>"
  by (simp_all add: toy_externals_def toy_decode_def)

lemma recvfrom_sample:
  "fst (recvfrom (Received [1, 1, 7]) buf (nat kMaxPacketBufferSize)) = 3"
  "take 3 (snd (recvfrom (Received [1, 1, 7]) buf (nat kMaxPacketBufferSize))) = [1, 1, 7]"
  by (simp_all add: recvfrom_def kMaxPacketBufferSize_def)

lemma receive_iter_sample_frame:
  "receive_iter toy_externals name sample_frame (s, pd) tr =
     ((s\<lparr>buffer := snd (recvfrom (Received [1, 1, 7]) (buffer s) (nat kMaxPacketBufferSize))\<rparr>,
       pd\<lparr>video_frame := \<lparr>frame_image = \<lparr>mat_rows = 1, mat_cols = 1, mat_data = [7]\<rparr>\<rparr>\<rparr>),
      tr @ [Select (socket_handle s + 1) select_timeout, NamedWindow name,
            ImShow name \<lparr>mat_rows = 1, mat_cols = 1, mat_data = [7]\<rparr>, WaitKey 15])"
  by (simp add: receive_iter_def GetPacket_rxN_def Let_def case_prod_beta recvfrom_sample
      sample_simps toy_simps UnpackData_rxN_def VideoFrame_bytes_def GetImage_def
      Display_rxN_def Mat_empty_def kDisplayDelayTimeMS_def)

lemma receive_iter_sample_recv_failed:
  "receive_iter ex name sample_recv_failed (s, pd) tr =
     ((s, pd\<lparr>video_frame := VideoFrame_default\<rparr>),
      tr @ [Select (socket_handle s + 1) select_timeout])"
  by (simp add: receive_iter_def GetPacket_rxN_def Let_def recvfrom_def SOCKET_ERROR_def
      sample_simps UnpackData_rxN_def GetImage_def Display_rxN_def VideoFrame_default_empty)

lemma thread_step_cycle_running:
  "thread_step ex (Cycle env) (Running name s pd) tr =
     (Inr (Running name (fst (fst (receive_iter ex name env (s, pd) tr)))
             (snd (fst (receive_iter ex name env (s, pd) tr)))),
      snd (receive_iter ex name env (s, pd) tr))"
  by (simp split: prod.split)

lemma receive_iter_recv_failed:
  "\<lbrakk>fd_isset env; fst (recvfrom (recv env) (buffer s) (nat kMaxPacketBufferSize)) \<le> 0\<rbrakk> \<Longrightarrow>
     receive_iter ex name env (s, pd) tr =
       ((s\<lparr>buffer := snd (recvfrom (recv env) (buffer s) (nat kMaxPacketBufferSize))\<rparr>,
         pd\<lparr>video_frame := VideoFrame_default\<rparr>),
        tr @ [Select (socket_handle s + 1) select_timeout])"
  by (simp add: receive_iter_def GetPacket_rxN_def Let_def case_prod_beta
      UnpackData_rxN_def GetImage_def Display_rxN_def VideoFrame_default_empty)

lemma window_image_Select:
  "window_image w (tr @ [Select n tv]) = window_image w tr"
  by (simp add: window_image_def)

lemma Display_rxN_frame:
  "fst (Display_rxN ex name sys f tr) =
     (if Mat_empty (frame_image f) then f
      else f\<lparr>frame_image := cv_putText ex (frame_image f) (timestamp_text sys) (16, 40) (0, 0, 255)\<rparr>)"
  by (simp add: Display_rxN_def Let_def)

lemma UnpackData_rxN_frame:
  "video_frame (UnpackData_rxN ex pd d) =
     (if d \<noteq> [] then VideoFrame_bytes ex d else VideoFrame_default)"
  by (simp add: UnpackData_rxN_def)

lemma receive_iter_unfold:
  "receive_iter ex name env (s, pd) tr =
     ((fst (snd (GetPacket_rxN ex s name env tr)),
       (UnpackData_rxN ex pd (fst (GetPacket_rxN ex s name env tr)))
         \<lparr>video_frame := fst (Display_rxN ex name (local_time env)
             (video_frame (UnpackData_rxN ex pd (fst (GetPacket_rxN ex s name env tr))))
             (snd (snd (GetPacket_rxN ex s name env tr))))\<rparr>),
      snd (Display_rxN ex name (local_time env)
             (video_frame (UnpackData_rxN ex pd (fst (GetPacket_rxN ex s name env tr))))
             (snd (snd (GetPacket_rxN ex s name env tr)))))"
  by (simp add: receive_iter_def Let_def GetImage_def case_prod_beta)

lemma receive_iter_slot:
  "video_frame (snd (fst (receive_iter ex name env (s, pd) tr))) =
     fst (Display_rxN ex name (local_time env)
            (if fst (GetPacket_rxN ex s name env []) \<noteq> []
             then VideoFrame_bytes ex (fst (GetPacket_rxN ex s name env []))
             else VideoFrame_default) [])"
  by (simp add: receive_iter_unfold UnpackData_rxN_frame Display_rxN_frame GetPacket_rxN_data)

lemma GetPacket_rxN_trace_readable:
  "fd_isset env \<Longrightarrow>
     snd (snd (GetPacket_rxN ex s name env tr)) = tr @ [Select (socket_handle s + 1) select_timeout]"
  by (simp add: GetPacket_rxN_def Let_def case_prod_beta)

subsection \<open>The empty message\<close>

text \<open>
  In the multi-port receiver \<open>UnpackData\<close> applied to the empty byte vector stores the
  empty \<open>VideoFrame\<close>, whatever was stored before and whatever the decoder would do: the
  decoder is not called. A frame built from bytes holds what \<open>cv::imdecode\<close> returns for
  them; the constructor has no test of its own, and what the decoder does with bytes it
  cannot decode is not part of this development.
\<close>

lemma UnpackData_rxN_empty_vector:
  "video_frame (UnpackData_rxN ex pd []) = VideoFrame_default \<and>
   Mat_empty (frame_image (video_frame (UnpackData_rxN ex pd [])))"
  by (simp add: UnpackData_rxN_def VideoFrame_default_empty)

lemma VideoFrame_bytes_is_decoder_result:
  "frame_image (VideoFrame_bytes ex bs) = cv_imdecode ex bs"
  by (simp add: VideoFrame_bytes_def)

subsection \<open>A bind failure\<close>

text \<open>
  C2, as the code has it. A bind failure in one session (\<open>socket\<close> gave no handle, or
  \<open>bind\<close> returned a negative status) is written to \<open>stderr\<close> in two lines and then ends
  the whole process through \<open>exit(-1)\<close>: no thread is changed and no session, the failing
  one or a sibling, runs or writes anything afterwards, whatever the schedule.
\<close>

theorem bind_failure_exits_process:
  "\<lbrakk>exit_code p = None; i < length (threads p); threads p ! i = NotStarted port_arg name;
    WSAStartup_ret env = 0;
    socket_ret env = INVALID_SOCKET \<or> (ioctlsocket_ret env \<noteq> SOCKET_ERROR \<and> bind_ret env < 0)\<rbrakk> \<Longrightarrow>
     proc_step ex (i, Startup env) p =
       p\<lparr>exit_code := Some (- 1),
         trace := trace p @
           [Stderr (if socket_ret env = INVALID_SOCKET
                    then ''Binding failed. Socket was not initialized.''
                    else ''Binding failed. Could not bind the socket.''),
            Stderr ''Could not bind socket.'']\<rparr> \<and>
     proc_run ex sched (proc_step ex (i, Startup env) p) = proc_step ex (i, Startup env) p"
proof -
  assume a: "exit_code p = None" "i < length (threads p)" "threads p ! i = NotStarted port_arg name"
    and w: "WSAStartup_ret env = 0"
    and b: "socket_ret env = INVALID_SOCKET \<or> (ioctlsocket_ret env \<noteq> SOCKET_ERROR \<and> bind_ret env < 0)"
  have s: "proc_step ex (i, Startup env) p =
       p\<lparr>exit_code := Some (- 1),
         trace := trace p @
           [Stderr (if socket_ret env = INVALID_SOCKET
                    then ''Binding failed. Socket was not initialized.''
                    else ''Binding failed. Could not bind the socket.''),
            Stderr ''Could not bind socket.'']\<rparr>"
    using a by (simp add: proc_step_def receive_start_bind_fails [OF w b])
  have "exit_code (proc_step ex (i, Startup env) p) \<noteq> None"
    by (simp add: s)
  then have "proc_run ex sched (proc_step ex (i, Startup env) p) = proc_step ex (i, Startup env) p"
    by (rule proc_run_exited)
  with s show ?thesis by simp
qed

theorem bind_failure_exits_process_witness:
  "exit_code main_rxN = None \<and> 0 < length (threads main_rxN) \<and>
   threads main_rxN ! 0 = NotStarted 4000 ''Streaming Video 0'' \<and>
   WSAStartup_ret sample_bind_fails = 0 \<and>
   (socket_ret sample_bind_fails = INVALID_SOCKET \<or>
      (ioctlsocket_ret sample_bind_fails \<noteq> SOCKET_ERROR \<and> bind_ret sample_bind_fails < 0)) \<and>
   proc_step toy_externals (0, Startup sample_bind_fails) main_rxN =
     main_rxN\<lparr>exit_code := Some (- 1),
       trace := [Stderr ''Binding failed. Could not bind the socket.'',
                 Stderr ''Could not bind socket.'']\<rparr> \<and>
   proc_run toy_externals [(1, Startup sample_startup_ok), (1, Cycle sample_frame)]
       (proc_step toy_externals (0, Startup sample_bind_fails) main_rxN) =
     proc_step toy_externals (0, Startup sample_bind_fails) main_rxN"
proof -
  have a1: "exit_code main_rxN = None" and a2: "0 < length (threads main_rxN)"
    and a3: "threads main_rxN ! 0 = NotStarted 4000 ''Streaming Video 0''"
    and t: "trace main_rxN = []"
    by (simp_all add: main_rxN_def to_string.simps digit_char_def)
  have w: "WSAStartup_ret sample_bind_fails = 0"
    by (simp add: sample_bind_fails_def)
  have b: "socket_ret sample_bind_fails = INVALID_SOCKET \<or>
      (ioctlsocket_ret sample_bind_fails \<noteq> SOCKET_ERROR \<and> bind_ret sample_bind_fails < 0)"
    and n: "socket_ret sample_bind_fails \<noteq> INVALID_SOCKET"
    by (simp_all add: sample_bind_fails_def INVALID_SOCKET_def SOCKET_ERROR_def)
  note th = bind_failure_exits_process [OF a1 a2 a3 w b, of toy_externals
        "[(1, Startup sample_startup_ok), (1, Cycle sample_frame)]"]
  have c1: "proc_step toy_externals (0, Startup sample_bind_fails) main_rxN =
     main_rxN\<lparr>exit_code := Some (- 1),
       trace := [Stderr ''Binding failed. Could not bind the socket.'',
                 Stderr ''Could not bind socket.'']\<rparr>"
    using conjunct1 [OF th] by (simp add: t n)
  have c2: "proc_run toy_externals [(1, Startup sample_startup_ok), (1, Cycle sample_frame)]
       (proc_step toy_externals (0, Startup sample_bind_fails) main_rxN) =
     proc_step toy_externals (0, Startup sample_bind_fails) main_rxN"
    by (rule conjunct2 [OF th])
  show ?thesis
    using a1 a2 a3 w b c1 c2 by blast
qed

text \<open>
  C2 as stated fails: the second session is in its loop and has shown a frame, the first
  session fails to bind, and the process has ended with code \<open>-1\<close>; the pass the second
  session is scheduled for afterwards adds nothing to the trace.
\<close>

theorem bind_failure_counterexample:
  "exit_code (proc_run toy_externals bind_failure_schedule main_rxN) = Some (- 1) \<and>
   trace (proc_run toy_externals bind_failure_schedule main_rxN) =
     [Stdout ''Listening on port 5000.'',
      Select 4 select_timeout, NamedWindow ''Streaming Video 1'',
      ImShow ''Streaming Video 1'' \<lparr>mat_rows = 1, mat_cols = 1, mat_data = [7]\<rparr>, WaitKey 15,
      Stderr ''Binding failed. Could not bind the socket.'', Stderr ''Could not bind socket.'']"
  by (simp add: bind_failure_schedule_def proc_step_def main_rxN_def receive_start_def
      sample_bind_fails_def sample_startup_ok_def BindSocketToListen_rxN_def
      INVALID_SOCKET_def SOCKET_ERROR_def to_string.simps digit_char_def int_to_string_def
      receive_iter_sample_frame ReceiverSocket_def)

subsection \<open>The time-out of the multi-port receiver\<close>

text \<open>
  C3. When \<open>select\<close> runs out of time (the socket is not in the set afterwards),
  \<open>GetPacket\<close> shows the fallback picture \<open>our_team.jpg\<close> in the session's window and
  returns the empty vector. The calls of such a pass that wait are \<open>select\<close>, with a
  time-out of one second, and \<open>cv::waitKey\<close> with 15 milliseconds, so the pass waits no
  longer than 1000 + 15 milliseconds; \<open>recvfrom\<close> is not called. When every pass runs out
  of time, every pass shows the fallback picture once: \<open>n\<close> passes leave \<open>n\<close> copies of
  the four calls in the trace.
\<close>

theorem timeout_shows_fallback:
  "\<forall>e\<in>set (env # envs). \<not> fd_isset e \<Longrightarrow>
     GetPacket_rxN ex s name env tr =
       ([], s, tr @ [Select (socket_handle s + 1) select_timeout, NamedWindow name,
                     ImShow name (cv_imread ex fallback_picture), WaitKey kDisplayDelayTimeMS]) \<and>
     sum_list (map wait_bound_ms
        [Select (socket_handle s + 1) select_timeout, NamedWindow name,
         ImShow name (cv_imread ex fallback_picture), WaitKey kDisplayDelayTimeMS]) = 1000 + 15 \<and>
     window_image name (snd (receive_iter ex name env (s, pd) tr)) =
       Some (cv_imread ex fallback_picture) \<and>
     snd (receive_loop ex name (env # envs) (s, pd) tr) =
       tr @ concat (replicate (Suc (length envs))
              [Select (socket_handle s + 1) select_timeout, NamedWindow name,
               ImShow name (cv_imread ex fallback_picture), WaitKey kDisplayDelayTimeMS])"
proof -
  assume h: "\<forall>e\<in>set (env # envs). \<not> fd_isset e"
  then have t: "\<not> fd_isset env" by simp
  have a: "GetPacket_rxN ex s name env tr =
       ([], s, tr @ [Select (socket_handle s + 1) select_timeout, NamedWindow name,
                     ImShow name (cv_imread ex fallback_picture), WaitKey kDisplayDelayTimeMS])"
    by (rule GetPacket_rxN_timeout [OF t])
  have b: "sum_list (map wait_bound_ms
        [Select (socket_handle s + 1) select_timeout, NamedWindow name,
         ImShow name (cv_imread ex fallback_picture), WaitKey kDisplayDelayTimeMS]) = 1000 + 15"
    by (simp add: select_timeout_def kDisplayDelayTimeMS_def)
  have c: "window_image name (snd (receive_iter ex name env (s, pd) tr)) =
       Some (cv_imread ex fallback_picture)"
    by (simp add: receive_iter_timeout [OF t] window_image_def)
  have d: "snd (receive_loop ex name (env # envs) (s, pd) tr) =
       tr @ concat (replicate (length (env # envs))
              [Select (socket_handle s + 1) select_timeout, NamedWindow name,
               ImShow name (cv_imread ex fallback_picture), WaitKey kDisplayDelayTimeMS])"
    by (rule receive_loop_timeouts [OF h])
  from a b c d show ?thesis by simp
qed

theorem timeout_shows_fallback_witness:
  "\<not> fd_isset sample_timeout \<and>
   GetPacket_rxN toy_externals (ReceiverSocket 4000 3) ''Streaming Video 0'' sample_timeout [] =
     ([], ReceiverSocket 4000 3,
      [Select 4 \<lparr>tv_sec = 1, tv_usec = 0\<rparr>, NamedWindow ''Streaming Video 0'',
       ImShow ''Streaming Video 0'' \<lparr>mat_rows = 1, mat_cols = 1, mat_data = [127]\<rparr>, WaitKey 15]) \<and>
   snd (receive_loop toy_externals ''Streaming Video 0'' [sample_timeout, sample_timeout]
          (ReceiverSocket 4000 3, BasicProtocolData_default) []) =
     [Select 4 \<lparr>tv_sec = 1, tv_usec = 0\<rparr>, NamedWindow ''Streaming Video 0'',
      ImShow ''Streaming Video 0'' \<lparr>mat_rows = 1, mat_cols = 1, mat_data = [127]\<rparr>, WaitKey 15,
      Select 4 \<lparr>tv_sec = 1, tv_usec = 0\<rparr>, NamedWindow ''Streaming Video 0'',
      ImShow ''Streaming Video 0'' \<lparr>mat_rows = 1, mat_cols = 1, mat_data = [127]\<rparr>, WaitKey 15]"
proof -
  have h: "\<forall>e\<in>set (sample_timeout # [sample_timeout]). \<not> fd_isset e"
    by (simp add: sample_timeout_def)
  have s: "socket_handle (ReceiverSocket 4000 3) = 3"
    by (simp add: ReceiverSocket_def)
  show ?thesis
    using h timeout_shows_fallback [OF h, of toy_externals "ReceiverSocket 4000 3"
        "''Streaming Video 0''" "[]" BasicProtocolData_default]
    by (simp add: s select_timeout_def kDisplayDelayTimeMS_def toy_externals_def
        numeral_2_eq_2)
qed

subsection \<open>A failing receive call\<close>

text \<open>
  C4, as the code has it. No pass through the loop ends a receiver session: after any pass
  the process has not exited and the session is in its loop. In particular a failing
  \<open>recvfrom\<close> on a socket that \<open>select\<close> left in the set is not fatal: the pass stores the
  empty frame, shows nothing (the trace grows by the \<open>select\<close> call alone) and the session
  goes on, as it does after a time-out.
\<close>

theorem receive_failure_not_fatal:
  "\<lbrakk>exit_code p = None; i < length (threads p); threads p ! i = Running name s pd\<rbrakk> \<Longrightarrow>
     exit_code (proc_step ex (i, Cycle env) p) = None \<and>
     (\<exists>s1 pd1. threads (proc_step ex (i, Cycle env) p) ! i = Running name s1 pd1) \<and>
     (fd_isset env \<and> fst (recvfrom (recv env) (buffer s) (nat kMaxPacketBufferSize)) \<le> 0 \<longrightarrow>
        proc_step ex (i, Cycle env) p =
          p\<lparr>threads := (threads p)[i := Running name
                 (s\<lparr>buffer := snd (recvfrom (recv env) (buffer s) (nat kMaxPacketBufferSize))\<rparr>)
                 (pd\<lparr>video_frame := VideoFrame_default\<rparr>)],
            trace := trace p @ [Select (socket_handle s + 1) select_timeout]\<rparr>)"
proof -
  assume a: "exit_code p = None" "i < length (threads p)" "threads p ! i = Running name s pd"
  have st: "proc_step ex (i, Cycle env) p =
      p\<lparr>threads := (threads p)[i := Running name
             (fst (fst (receive_iter ex name env (s, pd) (trace p))))
             (snd (fst (receive_iter ex name env (s, pd) (trace p))))],
        trace := snd (receive_iter ex name env (s, pd) (trace p))\<rparr>"
    using a by (simp add: proc_step_def thread_step_cycle_running del: thread_step.simps)
  have c1: "exit_code (proc_step ex (i, Cycle env) p) = None"
    using a by (simp add: st)
  have c2: "\<exists>s1 pd1. threads (proc_step ex (i, Cycle env) p) ! i = Running name s1 pd1"
    using a by (simp add: st)
  have c3: "fd_isset env \<and> fst (recvfrom (recv env) (buffer s) (nat kMaxPacketBufferSize)) \<le> 0 \<longrightarrow>
        proc_step ex (i, Cycle env) p =
          p\<lparr>threads := (threads p)[i := Running name
                 (s\<lparr>buffer := snd (recvfrom (recv env) (buffer s) (nat kMaxPacketBufferSize))\<rparr>)
                 (pd\<lparr>video_frame := VideoFrame_default\<rparr>)],
            trace := trace p @ [Select (socket_handle s + 1) select_timeout]\<rparr>"
    by (simp add: st receive_iter_recv_failed)
  from c1 c2 c3 show ?thesis by blast
qed

theorem receive_failure_not_fatal_witness:
  "exit_code sample_running = None \<and> 0 < length (threads sample_running) \<and>
   threads sample_running ! 0 =
     Running ''Streaming Video 0'' (ReceiverSocket 4000 3) BasicProtocolData_default \<and>
   fd_isset sample_recv_failed \<and>
   fst (recvfrom (recv sample_recv_failed) (buffer (ReceiverSocket 4000 3))
          (nat kMaxPacketBufferSize)) \<le> 0 \<and>
   proc_step toy_externals (0, Cycle sample_recv_failed) sample_running =
     sample_running\<lparr>trace := [Stdout ''Listening on port 4000.'', Select 4 select_timeout]\<rparr>"
proof -
  have a1: "exit_code sample_running = None" and a2: "0 < length (threads sample_running)"
    and a3: "threads sample_running ! 0 =
      Running ''Streaming Video 0'' (ReceiverSocket 4000 3) BasicProtocolData_default"
    by (simp_all add: sample_running_def)
  have f: "fd_isset sample_recv_failed"
    and r: "fst (recvfrom (recv sample_recv_failed) (buffer (ReceiverSocket 4000 3))
          (nat kMaxPacketBufferSize)) \<le> 0"
    and b: "snd (recvfrom (recv sample_recv_failed) (buffer (ReceiverSocket 4000 3))
          (nat kMaxPacketBufferSize)) = buffer (ReceiverSocket 4000 3)"
    by (simp_all add: sample_simps recvfrom_def SOCKET_ERROR_def)
  note th = receive_failure_not_fatal [OF a1 a2 a3, of toy_externals sample_recv_failed]
  have "proc_step toy_externals (0, Cycle sample_recv_failed) sample_running =
     sample_running\<lparr>trace := [Stdout ''Listening on port 4000.'', Select 4 select_timeout]\<rparr>"
    using th f r
    by (simp add: b) (simp add: sample_running_def ReceiverSocket_def BasicProtocolData_default_def)
  with a1 a2 a3 f r show ?thesis by blast
qed

text \<open>
  C4 as stated fails: the first session starts, \<open>recvfrom\<close> fails in its first pass, and
  the process has not exited; in the next pass the session receives a frame and shows it.
\<close>

theorem recv_failure_counterexample:
  "exit_code (proc_run toy_externals recv_failure_schedule main_rxN) = None \<and>
   trace (proc_run toy_externals recv_failure_schedule main_rxN) =
     [Stdout ''Listening on port 4000.'',
      Select 4 select_timeout,
      Select 4 select_timeout, NamedWindow ''Streaming Video 0'',
      ImShow ''Streaming Video 0'' \<lparr>mat_rows = 1, mat_cols = 1, mat_data = [7]\<rparr>, WaitKey 15]"
  by (simp add: recv_failure_schedule_def proc_step_def main_rxN_def receive_start_def
      sample_startup_ok_def BindSocketToListen_rxN_def
      INVALID_SOCKET_def SOCKET_ERROR_def to_string.simps digit_char_def int_to_string_def
      receive_iter_sample_frame receive_iter_sample_recv_failed ReceiverSocket_def)

subsection \<open>The stored frame\<close>

text \<open>
  C5, as the code has it. The frame stored after a pass is a function of that pass's
  packet and clock alone: it does not depend on the frame stored before or on what was
  shown before, so nothing is kept from earlier passes. When the pass got no data the
  stored frame is the empty frame. When the socket was readable and no frame was decoded
  from the packet (a failed receive, an empty or undecodable datagram) every window shows
  what it showed before the pass; when \<open>select\<close> ran out of time the session's window
  shows the fallback picture.
\<close>

theorem frame_slot_overwritten_every_pass:
  "video_frame (snd (fst (receive_iter ex name env (s, pd) tr))) =
     video_frame (snd (fst (receive_iter ex name env (s, pd') tr'))) \<and>
   (fst (GetPacket_rxN ex s name env tr) = [] \<longrightarrow>
      video_frame (snd (fst (receive_iter ex name env (s, pd) tr))) = VideoFrame_default) \<and>
   (fd_isset env \<and>
    Mat_empty (frame_image (video_frame
        (UnpackData_rxN ex pd (fst (GetPacket_rxN ex s name env tr))))) \<longrightarrow>
      window_image w (snd (receive_iter ex name env (s, pd) tr)) = window_image w tr) \<and>
   (\<not> fd_isset env \<longrightarrow>
      window_image name (snd (receive_iter ex name env (s, pd) tr)) =
        Some (cv_imread ex fallback_picture))"
proof -
  have a: "video_frame (snd (fst (receive_iter ex name env (s, pd) tr))) =
     video_frame (snd (fst (receive_iter ex name env (s, pd') tr')))"
    by (simp only: receive_iter_slot)
  have b: "fst (GetPacket_rxN ex s name env tr) = [] \<longrightarrow>
      video_frame (snd (fst (receive_iter ex name env (s, pd) tr))) = VideoFrame_default"
    by (simp add: receive_iter_no_data)
  have c: "fd_isset env \<and>
    Mat_empty (frame_image (video_frame
        (UnpackData_rxN ex pd (fst (GetPacket_rxN ex s name env tr))))) \<longrightarrow>
      window_image w (snd (receive_iter ex name env (s, pd) tr)) = window_image w tr"
    by (simp add: receive_iter_unfold Display_rxN_def GetPacket_rxN_trace_readable
        window_image_Select)
  have d: "\<not> fd_isset env \<longrightarrow>
      window_image name (snd (receive_iter ex name env (s, pd) tr)) =
        Some (cv_imread ex fallback_picture)"
    by (simp add: receive_iter_timeout window_image_def)
  from a b c d show ?thesis by blast
qed

theorem frame_slot_overwritten_every_pass_witness:
  "fd_isset sample_recv_failed \<and>
   fst (GetPacket_rxN toy_externals (ReceiverSocket 4000 3) ''Streaming Video 0''
          sample_recv_failed [ImShow ''Streaming Video 0'' \<lparr>mat_rows = 1, mat_cols = 1, mat_data = [7]\<rparr>])
     = [] \<and>
   video_frame (snd (fst (receive_iter toy_externals ''Streaming Video 0'' sample_recv_failed
       (ReceiverSocket 4000 3, \<lparr>video_frame = VideoFrame_Mat \<lparr>mat_rows = 1, mat_cols = 1, mat_data = [7]\<rparr>\<rparr>)
       [ImShow ''Streaming Video 0'' \<lparr>mat_rows = 1, mat_cols = 1, mat_data = [7]\<rparr>]))) =
     VideoFrame_default \<and>
   window_image ''Streaming Video 0''
     (snd (receive_iter toy_externals ''Streaming Video 0'' sample_recv_failed
       (ReceiverSocket 4000 3, \<lparr>video_frame = VideoFrame_Mat \<lparr>mat_rows = 1, mat_cols = 1, mat_data = [7]\<rparr>\<rparr>)
       [ImShow ''Streaming Video 0'' \<lparr>mat_rows = 1, mat_cols = 1, mat_data = [7]\<rparr>])) =
     Some \<lparr>mat_rows = 1, mat_cols = 1, mat_data = [7]\<rparr> \<and>
   \<not> fd_isset sample_timeout \<and>
   window_image ''Streaming Video 0''
     (snd (receive_iter toy_externals ''Streaming Video 0'' sample_timeout
       (ReceiverSocket 4000 3, \<lparr>video_frame = VideoFrame_Mat \<lparr>mat_rows = 1, mat_cols = 1, mat_data = [7]\<rparr>\<rparr>)
       [ImShow ''Streaming Video 0'' \<lparr>mat_rows = 1, mat_cols = 1, mat_data = [7]\<rparr>])) =
     Some \<lparr>mat_rows = 1, mat_cols = 1, mat_data = [127]\<rparr>"
proof -
  let ?s = "ReceiverSocket 4000 3"
  let ?pd = "\<lparr>video_frame = VideoFrame_Mat \<lparr>mat_rows = 1, mat_cols = 1, mat_data = [7]\<rparr>\<rparr>"
  let ?tr = "[ImShow ''Streaming Video 0'' \<lparr>mat_rows = 1, mat_cols = 1, mat_data = [7]\<rparr>]"
  have f: "fd_isset sample_recv_failed" and t: "\<not> fd_isset sample_timeout"
    by (simp_all add: sample_simps)
  have g: "fst (GetPacket_rxN toy_externals ?s ''Streaming Video 0'' sample_recv_failed ?tr) = []"
    by (simp add: GetPacket_rxN_data sample_simps recvfrom_def SOCKET_ERROR_def)
  have e: "Mat_empty (frame_image (video_frame (UnpackData_rxN toy_externals ?pd
      (fst (GetPacket_rxN toy_externals ?s ''Streaming Video 0'' sample_recv_failed ?tr)))))"
    by (simp only: g UnpackData_rxN_frame) (simp add: VideoFrame_default_empty)
  have w0: "window_image ''Streaming Video 0'' ?tr =
      Some \<lparr>mat_rows = 1, mat_cols = 1, mat_data = [7]\<rparr>"
    by (simp add: window_image_def)
  note th1 = frame_slot_overwritten_every_pass [of toy_externals "''Streaming Video 0''"
      sample_recv_failed ?s ?pd ?tr ?pd ?tr "''Streaming Video 0''"]
  note th2 = frame_slot_overwritten_every_pass [of toy_externals "''Streaming Video 0''"
      sample_timeout ?s ?pd ?tr ?pd ?tr "''Streaming Video 0''"]
  have c1: "video_frame (snd (fst (receive_iter toy_externals ''Streaming Video 0''
      sample_recv_failed (?s, ?pd) ?tr))) = VideoFrame_default"
    using th1 g by blast
  have c2: "window_image ''Streaming Video 0''
     (snd (receive_iter toy_externals ''Streaming Video 0'' sample_recv_failed (?s, ?pd) ?tr)) =
     Some \<lparr>mat_rows = 1, mat_cols = 1, mat_data = [7]\<rparr>"
    using th1 f e w0 by simp
  have c3: "window_image ''Streaming Video 0''
     (snd (receive_iter toy_externals ''Streaming Video 0'' sample_timeout (?s, ?pd) ?tr)) =
     Some \<lparr>mat_rows = 1, mat_cols = 1, mat_data = [127]\<rparr>"
    using th2 t by (simp add: toy_simps)
  from f g c1 c2 t c3 show ?thesis by blast
qed

text \<open>
  C5 as stated fails: after a pass that received a frame the slot holds it and the window
  shows it; after a following pass in which nothing arrived the slot holds the empty frame
  and the window shows the fallback picture.
\<close>

theorem frame_slot_counterexample:
  "video_frame (snd (fst (receive_loop toy_externals ''Streaming Video 0'' [sample_frame]
       (ReceiverSocket 4000 3, BasicProtocolData_default) []))) =
     \<lparr>frame_image = \<lparr>mat_rows = 1, mat_cols = 1, mat_data = [7]\<rparr>\<rparr> \<and>
   window_image ''Streaming Video 0''
     (snd (receive_loop toy_externals ''Streaming Video 0'' [sample_frame]
       (ReceiverSocket 4000 3, BasicProtocolData_default) [])) =
     Some \<lparr>mat_rows = 1, mat_cols = 1, mat_data = [7]\<rparr> \<and>
   video_frame (snd (fst (receive_loop toy_externals ''Streaming Video 0''
       [sample_frame, sample_timeout]
       (ReceiverSocket 4000 3, BasicProtocolData_default) []))) =
     \<lparr>frame_image = \<lparr>mat_rows = 0, mat_cols = 0, mat_data = []\<rparr>\<rparr> \<and>
   window_image ''Streaming Video 0''
     (snd (receive_loop toy_externals ''Streaming Video 0'' [sample_frame, sample_timeout]
       (ReceiverSocket 4000 3, BasicProtocolData_default) [])) =
     Some \<lparr>mat_rows = 1, mat_cols = 1, mat_data = [127]\<rparr>"
  by (simp add: receive_iter_sample_frame receive_iter_timeout sample_simps toy_simps
      window_image_def VideoFrame_default_def Mat_default_def)

subsection \<open>Displaying the empty frame\<close>

text \<open>
  C6. \<open>Display\<close> on a frame whose image is empty returns at once, in the single-port
  receiver, in the multi-port one and in the sender: no window is opened or updated (the
  trace is the one before the call) and the frame is the one before the call.
\<close>

theorem Display_empty_frame_noop:
  "Mat_empty (frame_image f) \<Longrightarrow>
     Display ex sys f tr = (f, tr) \<and> Display_rxN ex name sys f tr = (f, tr) \<and>
     Display_tx f tr = tr"
  by (simp add: Display_def Display_rxN_def Display_tx_def)

theorem Display_empty_frame_noop_witness:
  "Mat_empty (frame_image VideoFrame_default) \<and>
   Display toy_externals zero_time VideoFrame_default [Stdout ''Listening on port 5000.'']
     = (VideoFrame_default, [Stdout ''Listening on port 5000.'']) \<and>
   Display_rxN toy_externals ''Streaming Video 0'' zero_time VideoFrame_default
       [Stdout ''Listening on port 4000.'']
     = (VideoFrame_default, [Stdout ''Listening on port 4000.''])"
proof -
  have h: "Mat_empty (frame_image VideoFrame_default)"
    by (simp add: VideoFrame_default_def Mat_empty_def Mat_default_def)
  show ?thesis
    using h
      Display_empty_frame_noop [OF h, of toy_externals zero_time
        "[Stdout ''Listening on port 5000.'']" "''Streaming Video 0''"]
      Display_empty_frame_noop [OF h, of toy_externals zero_time
        "[Stdout ''Listening on port 4000.'']" "''Streaming Video 0''"]
    by simp
qed

subsection \<open>The packet that is sent\<close>

text \<open>
  C7. \<open>PackageData\<close> returns the bytes \<open>cv::imencode\<close> produced for the stored frame
  (extension \<open>.jpg\<close>, quality 60) and nothing else; \<open>SendPacket\<close> hands exactly these
  bytes to \<open>sendto\<close>. In a pass of the sender's loop the one datagram added is the
  encoding of the frame stored in that pass, with no header, number or checksum.
\<close>

theorem Package_is_identity:
  "PackageData_tx ex pd =
     cv_imencode ex ''.jpg'' (frame_image (video_frame pd)) [IMWRITE_JPEG_QUALITY, 60] \<and>
   SendPacket socket (PackageData_tx ex pd) tr =
     tr @ [SendTo (tx_socket_handle socket) (GetJPEG_tx ex (video_frame pd))
             (receiver_addr socket)] \<and>
   sent_payloads (snd (send_iter ex socket sys (vc, pd) tr)) =
     sent_payloads tr @
       [GetJPEG_tx ex (video_frame (snd (fst (send_iter ex socket sys (vc, pd) tr))))]"
proof -
  have a: "PackageData_tx ex pd =
     cv_imencode ex ''.jpg'' (frame_image (video_frame pd)) [IMWRITE_JPEG_QUALITY, 60]"
    by (simp add: PackageData_tx_def GetJPEG_tx_def kJPEGExtension_def kJPEGQuality_tx_def)
  have b: "SendPacket socket (PackageData_tx ex pd) tr =
     tr @ [SendTo (tx_socket_handle socket) (GetJPEG_tx ex (video_frame pd))
             (receiver_addr socket)]"
    by (simp add: SendPacket_def PackageData_tx_def)
  have c: "sent_payloads (snd (send_iter ex socket sys (vc, pd) tr)) =
     sent_payloads tr @
       [GetJPEG_tx ex (video_frame (snd (fst (send_iter ex socket sys (vc, pd) tr))))]"
    by (simp add: send_iter_unfold SendPacket_def sent_payloads_append
        sent_payloads_GetFrameFromCamera_tx PackageData_tx_def)
       (simp add: sent_payloads_def)
  from a b c show ?thesis by simp
qed

subsection \<open>The size of a received packet\<close>

text \<open>
  C8. Every call of \<open>ReceiverSocket::GetPacket\<close>, in the single-port receiver and in the
  multi-port one, returns at most 65535 bytes: \<open>kMaxPacketBufferSize\<close> is 65535, the
  receive buffer holds exactly that many bytes, and \<open>recvfrom\<close> is handed that bound, so
  the count it returns does not exceed it.
\<close>

theorem GetPacket_length_bound:
  "length (fst (GetPacket s r)) \<le> 65535 \<and>
   length (fst (GetPacket_rxN ex s name env tr)) \<le> 65535 \<and>
   kMaxPacketBufferSize = 65535 \<and>
   length (buffer (ReceiverSocket port_number h)) = 65535 \<and>
   fst (recvfrom r (buffer s) (nat kMaxPacketBufferSize)) \<le> 65535"
proof -
  have k: "nat kMaxPacketBufferSize = 65535"
    by (simp add: kMaxPacketBufferSize_def)
  have b: "fst (recvfrom q (buffer s) (nat kMaxPacketBufferSize)) \<le> 65535" for q
    using recvfrom_le [of q "buffer s" "nat kMaxPacketBufferSize"] by (simp add: k)
  have "length (fst (GetPacket s r)) \<le> 65535"
    using b [of r] by (auto simp: GetPacket_data min_def)
  moreover have "length (fst (GetPacket_rxN ex s name env tr)) \<le> 65535"
    using b [of "recv env"] by (auto simp: GetPacket_rxN_data min_def)
  moreover have "length (buffer (ReceiverSocket port_number h)) = 65535"
    by (simp add: ReceiverSocket_def k)
  ultimately show ?thesis
    using b [of r] by (simp add: kMaxPacketBufferSize_def)
qed

subsection \<open>A camera that was not opened\<close>

text \<open>
  C9. When the camera is not opened, \<open>GetFrameFromCamera\<close> (in the receiver's file and in
  the sender's) writes one line to \<open>stderr\<close> and returns the empty frame, leaving the
  capture object as it was. The sender's loop goes on: each pass stores the empty frame,
  writes the line and calls \<open>sendto\<close> with the encoding of the empty frame, pass after
  pass.
\<close>

theorem camera_unavailable_recovers:
  "\<not> cam_opened (capture vc) \<Longrightarrow>
     GetFrameFromCamera ex sys vc tr =
       (VideoFrame_default, vc, tr @ [Stderr ''Could not get frame. Camera not available.'']) \<and>
     GetFrameFromCamera_tx ex sys vc tr =
       (VideoFrame_default, vc, tr @ [Stderr ''Could not get frame. Camera not available.'']) \<and>
     Mat_empty (frame_image VideoFrame_default) \<and>
     send_loop ex socket (sys # syss) (vc, pd) tr =
       ((vc, pd\<lparr>video_frame := VideoFrame_default\<rparr>),
        tr @ concat (replicate (Suc (length syss))
               [Stderr ''Could not get frame. Camera not available.'',
                SendTo (tx_socket_handle socket) (GetJPEG_tx ex VideoFrame_default)
                  (receiver_addr socket)]))"
proof -
  assume h: "\<not> cam_opened (capture vc)"
  have a: "GetFrameFromCamera ex sys vc tr =
       (VideoFrame_default, vc, tr @ [Stderr ''Could not get frame. Camera not available.''])"
    using h by (simp add: GetFrameFromCamera_def camera_unavailable_def)
  have b: "GetFrameFromCamera_tx ex sys vc tr =
       (VideoFrame_default, vc, tr @ [Stderr ''Could not get frame. Camera not available.''])"
    using h by (simp add: GetFrameFromCamera_tx_def camera_unavailable_def)
  have c: "send_loop ex socket (sys # syss) (vc, pd) tr =
       ((vc, pd\<lparr>video_frame := VideoFrame_default\<rparr>),
        tr @ concat (replicate (Suc (length syss))
               [Stderr ''Could not get frame. Camera not available.'',
                SendTo (tx_socket_handle socket) (GetJPEG_tx ex VideoFrame_default)
                  (receiver_addr socket)]))"
    using send_loop_closed [OF h, of ex socket "sys # syss" pd tr]
    by (simp add: camera_unavailable_def)
  from a b c show ?thesis by (simp add: VideoFrame_default_empty)
qed

theorem camera_unavailable_recovers_witness:
  "\<not> cam_opened (capture sample_no_camera) \<and>
   GetFrameFromCamera_tx toy_externals zero_time sample_no_camera [] =
     (VideoFrame_default, sample_no_camera,
      [Stderr ''Could not get frame. Camera not available.'']) \<and>
   snd (send_loop toy_externals (SenderSocket toy_externals ''192.168.43.168'' 6000 3)
          [zero_time, zero_time] (sample_no_camera, BasicProtocolData_default) []) =
     [Stderr ''Could not get frame. Camera not available.'',
      SendTo 3 [] \<lparr>sin_family = 2, sin_port = 28695, sin_addr = 0\<rparr>,
      Stderr ''Could not get frame. Camera not available.'',
      SendTo 3 [] \<lparr>sin_family = 2, sin_port = 28695, sin_addr = 0\<rparr>]"
proof -
  have h: "\<not> cam_opened (capture sample_no_camera)"
    by (simp add: sample_no_camera_def VideoCapture_def)
  have e: "GetJPEG_tx toy_externals VideoFrame_default = []"
    by (simp add: GetJPEG_tx_def toy_externals_def toy_encode_def VideoFrame_default_empty)
  have s: "SenderSocket toy_externals ''192.168.43.168'' 6000 3 =
      \<lparr>tx_socket_handle = 3,
       receiver_addr = \<lparr>sin_family = 2, sin_port = 28695, sin_addr = 0\<rparr>\<rparr>"
    by (simp add: SenderSocket_def AF_INET_def htons_6000 toy_externals_def)
  show ?thesis
    using h camera_unavailable_recovers [OF h, of toy_externals zero_time "[]"
        "SenderSocket toy_externals ''192.168.43.168'' 6000 3" "[zero_time]"
        BasicProtocolData_default]
    by (simp add: e s del: send_loop.simps)
qed

subsection \<open>No data at the receiving socket\<close>

text \<open>
  C10. Whenever \<open>recvfrom\<close> returns a count that is not positive, \<open>GetPacket\<close> returns the
  empty vector, in the single-port receiver (whose text the sender's file repeats) and in
  the multi-port receiver; a time-out of \<open>select\<close> gives the empty vector as well. In
  each case the session of the multi-port receiver stays in its loop, holding the empty
  frame; the pass of the single-port receiver goes on with the frame the decoder makes of
  the empty vector.
\<close>

theorem no_data_returns_empty_vector:
  "fst (recvfrom r (buffer s) (nat kMaxPacketBufferSize)) \<le> 0 \<Longrightarrow>
     fst (GetPacket s r) = [] \<and>
     fst (GetPacket_rxN ex s name (env\<lparr>fd_isset := True, recv := r\<rparr>) tr) = [] \<and>
     fst (GetPacket_rxN ex s name (env\<lparr>fd_isset := False\<rparr>) tr) = [] \<and>
     fst (thread_step ex (Cycle (env\<lparr>fd_isset := True, recv := r\<rparr>)) (Running name s pd) tr) =
       Inr (Running name (s\<lparr>buffer := snd (recvfrom r (buffer s) (nat kMaxPacketBufferSize))\<rparr>)
              (pd\<lparr>video_frame := VideoFrame_default\<rparr>)) \<and>
     fst (thread_step ex (Cycle (env\<lparr>fd_isset := False\<rparr>)) (Running name s pd) tr) =
       Inr (Running name s (pd\<lparr>video_frame := VideoFrame_default\<rparr>)) \<and>
     main_iter ex r sys (s, pd) tr =
       ((snd (GetPacket s r),
         pd\<lparr>video_frame := fst (Display ex sys (VideoFrame_bytes ex []) tr)\<rparr>),
        snd (Display ex sys (VideoFrame_bytes ex []) tr))"
proof -
  assume h: "fst (recvfrom r (buffer s) (nat kMaxPacketBufferSize)) \<le> 0"
  have a: "fst (GetPacket s r) = []"
    using h by (simp add: GetPacket_data)
  have b: "fst (GetPacket_rxN ex s name (env\<lparr>fd_isset := True, recv := r\<rparr>) tr) = []"
    using h by (simp add: GetPacket_rxN_data)
  have c: "fst (GetPacket_rxN ex s name (env\<lparr>fd_isset := False\<rparr>) tr) = []"
    by (simp add: GetPacket_rxN_data)
  have d: "fst (thread_step ex (Cycle (env\<lparr>fd_isset := True, recv := r\<rparr>)) (Running name s pd) tr) =
       Inr (Running name (s\<lparr>buffer := snd (recvfrom r (buffer s) (nat kMaxPacketBufferSize))\<rparr>)
              (pd\<lparr>video_frame := VideoFrame_default\<rparr>))"
    by (simp add: receive_iter_no_data [OF b])
       (simp add: GetPacket_rxN_def Let_def split: prod.split)
  have e: "fst (thread_step ex (Cycle (env\<lparr>fd_isset := False\<rparr>)) (Running name s pd) tr) =
       Inr (Running name s (pd\<lparr>video_frame := VideoFrame_default\<rparr>))"
    by (simp add: receive_iter_no_data [OF c])
       (simp add: GetPacket_rxN_def Let_def)
  have f: "main_iter ex r sys (s, pd) tr =
       ((snd (GetPacket s r),
         pd\<lparr>video_frame := fst (Display ex sys (VideoFrame_bytes ex []) tr)\<rparr>),
        snd (Display ex sys (VideoFrame_bytes ex []) tr))"
    by (rule main_iter_no_data [OF a])
  from a b c d e f show ?thesis by simp
qed

theorem no_data_returns_empty_vector_witness:
  "fst (recvfrom RecvFailed (buffer (ReceiverSocket 4000 3)) (nat kMaxPacketBufferSize)) \<le> 0 \<and>
   fst (GetPacket (ReceiverSocket 4000 3) RecvFailed) = [] \<and>
   fst (GetPacket_rxN toy_externals (ReceiverSocket 4000 3) ''Streaming Video 0''
          (sample_frame\<lparr>fd_isset := True, recv := RecvFailed\<rparr>) []) = [] \<and>
   fst (GetPacket_rxN toy_externals (ReceiverSocket 4000 3) ''Streaming Video 0''
          (sample_frame\<lparr>fd_isset := False\<rparr>) []) = [] \<and>
   fst (thread_step toy_externals (Cycle (sample_frame\<lparr>fd_isset := True, recv := RecvFailed\<rparr>))
          (Running ''Streaming Video 0'' (ReceiverSocket 4000 3) BasicProtocolData_default) []) =
     Inr (Running ''Streaming Video 0'' (ReceiverSocket 4000 3) BasicProtocolData_default)"
proof -
  have h: "fst (recvfrom RecvFailed (buffer (ReceiverSocket 4000 3))
                  (nat kMaxPacketBufferSize)) \<le> 0"
    by (simp add: recvfrom_def SOCKET_ERROR_def)
  have b: "snd (recvfrom RecvFailed (buffer (ReceiverSocket 4000 3))
                  (nat kMaxPacketBufferSize)) = buffer (ReceiverSocket 4000 3)"
    by (simp add: recvfrom_def)
  have d: "BasicProtocolData_default\<lparr>video_frame := VideoFrame_default\<rparr> =
      BasicProtocolData_default"
    by (simp add: BasicProtocolData_default_def)
  show ?thesis
    using h no_data_returns_empty_vector [OF h, of toy_externals "''Streaming Video 0''"
        sample_frame "[]" BasicProtocolData_default]
    by (simp add: b d del: thread_step.simps)
qed

end
